theory Spec2Isabelle
  imports Main "HOL-Library.Word" "HOL-Library.Sublist"
begin

unbundle bit_operations_syntax

section \<open>The flashrom internal device of fwupd\<close>

text \<open>
  A shallow embedding of \<^verbatim>\<open>plugins/flashrom/fu-flashrom-internal-device.c\<close>: the
  \<^verbatim>\<open>prepare\<close> hook that backs the flash chip up once, and the \<^verbatim>\<open>write_firmware\<close> hook
  that writes and verifies an image. Both are straight-line C with early returns; every
  call that leaves the file (libflashrom, GLib, libfwupdplugin) is a primitive that
  appends one event to the list of calls of the state, so that the order and the number
  of the calls can be read from the final state.
\<close>

subsection \<open>Errors\<close>

text \<open>
  A \<^verbatim>\<open>GError\<close> is a code and a message. The source sets three codes of the
  \<^verbatim>\<open>FWUPD_ERROR\<close> domain itself; errors of the helpers it propagates may carry any other.
\<close>

datatype fwupd_error =
    FWUPD_ERROR_READ
  | FWUPD_ERROR_WRITE
  | FWUPD_ERROR_NOT_SUPPORTED
  | FWUPD_ERROR_OTHER string

record gerror =
  code :: fwupd_error
  message :: string

text \<open>\<^verbatim>\<open>g_prefix_error\<close>: the message gets the prefix in front, the code stays.\<close>

definition g_prefix_error :: "gerror \<Rightarrow> string \<Rightarrow> gerror" where
  "g_prefix_error e prefix_str = e\<lparr>message := prefix_str @ message e\<rparr>"

subsection \<open>printf conversions of the error messages\<close>

definition hex_digit :: "nat \<Rightarrow> char" where
  "hex_digit d = ''0123456789abcdef'' ! (d mod 16)"

text \<open>\<^verbatim>\<open>%x\<close> of an unsigned value: lower-case hexadecimal, no leading zeros.\<close>

fun fmt_x :: "nat \<Rightarrow> string" where
  "fmt_x n = (if n < 16 then [hex_digit n] else fmt_x (n div 16) @ [hex_digit (n mod 16)])"

fun fmt_u :: "nat \<Rightarrow> string" where
  "fmt_u n = (if n < 10 then [hex_digit n] else fmt_u (n div 10) @ [hex_digit (n mod 10)])"

text \<open>\<^verbatim>\<open>%i\<close> of a \<^verbatim>\<open>gint\<close>: signed decimal.\<close>

definition fmt_i :: "int \<Rightarrow> string" where
  "fmt_i i = (if i < 0 then CHR ''-'' # fmt_u (nat (- i)) else fmt_u (nat i))"

text \<open>The cast \<^verbatim>\<open>(guint)\<close> of a \<^verbatim>\<open>gsize\<close> keeps the low 32 bits.\<close>

definition to_guint :: "nat \<Rightarrow> nat" where
  "to_guint n = n mod 2 ^ 32"

declare fmt_x.simps [simp del]
declare fmt_u.simps [simp del]

subsection \<open>Layouts, progress, calls and the state\<close>

type_synonym byte = "8 word"

text \<open>A libflashrom layout: the regions of the descriptor, each with its included mark.\<close>

record romentry =
  region_start :: nat
  region_end :: nat
  included :: bool
  region_name :: string

type_synonym flashrom_layout = "romentry list"

datatype fwupd_status = FWUPD_STATUS_DEVICE_READ | FWUPD_STATUS_DEVICE_WRITE | FWUPD_STATUS_DEVICE_VERIFY

datatype fu_progress_flag = FU_PROGRESS_FLAG_GUESSED

text \<open>
  Modelled from the spec: \<^verbatim>\<open>FuProgress\<close> (libfwupdplugin, not in the sources at hand) is
  the progress ledger, an ordered sequence of weighted phases that are marked complete
  one after the other. \<^verbatim>\<open>step_now\<close> counts the phases marked complete.
\<close>

record fu_progress =
  progress_id :: string
  progress_flags :: "fu_progress_flag list"
  progress_status :: "fwupd_status option"
  steps :: "(fwupd_status \<times> nat) list"
  step_now :: nat

definition fu_progress_new :: "string \<Rightarrow> fu_progress" where
  "fu_progress_new strloc =
     \<lparr>progress_id = strloc, progress_flags = [], progress_status = None, steps = [], step_now = 0\<rparr>"

definition fu_progress_set_id :: "fu_progress \<Rightarrow> string \<Rightarrow> fu_progress" where
  "fu_progress_set_id p strloc = p\<lparr>progress_id := strloc\<rparr>"

definition fu_progress_add_flag :: "fu_progress \<Rightarrow> fu_progress_flag \<Rightarrow> fu_progress" where
  "fu_progress_add_flag p f = p\<lparr>progress_flags := progress_flags p @ [f]\<rparr>"

definition fu_progress_set_status :: "fu_progress \<Rightarrow> fwupd_status \<Rightarrow> fu_progress" where
  "fu_progress_set_status p st = p\<lparr>progress_status := Some st\<rparr>"

definition fu_progress_add_step :: "fu_progress \<Rightarrow> fwupd_status \<Rightarrow> nat \<Rightarrow> fu_progress" where
  "fu_progress_add_step p st weight = p\<lparr>steps := steps p @ [(st, weight)]\<rparr>"

text \<open>The phases of the ledger that are marked complete.\<close>

definition steps_done :: "fu_progress \<Rightarrow> (fwupd_status \<times> nat) list" where
  "steps_done p = take (step_now p) (steps p)"

text \<open>
  The calls that leave the file, in the order they are made. A call carries the
  arguments that matter to a reader of the trace.
\<close>

datatype event =
    EvMkdirParent string
  | EvFileTest string
  | EvLayoutReadFromIfd
  | EvLayoutIncludeRegion string
  | EvLayoutSet flashrom_layout
  | EvImageRead nat
  | EvSetContents string "byte list"
  | EvImageWrite "byte list"
  | EvImageVerify "byte list"
  | EvStepDone fwupd_status
  | EvLayoutRelease
  | EvCmosReset

record fu_state =
  calls :: "event list"
  files :: "string \<rightharpoonup> byte list"
  flashctx_layout :: "flashrom_layout option"
  progress :: fu_progress

definition log_call :: "event \<Rightarrow> fu_state \<Rightarrow> fu_state" where
  "log_call e s = s\<lparr>calls := calls s @ [e]\<rparr>"

text \<open>The calls made between two states of one run.\<close>

definition new_calls :: "fu_state \<Rightarrow> fu_state \<Rightarrow> event list" where
  "new_calls s s' = drop (length (calls s)) (calls s')"

subsection \<open>The collaborators\<close>

text \<open>
  What the device, the flash chip and the operating system answer during one run of a
  hook. None of it is computed in the file: the device identity and its private flags,
  the size of the chip, the result of each libflashrom call, of the two file helpers, of
  \<^verbatim>\<open>fu_firmware_get_bytes\<close> and of \<^verbatim>\<open>fu_flashrom_cmos_reset\<close>.
  A libflashrom call answers an \<^verbatim>\<open>int\<close>, zero for success.
\<close>

record fu_env =
  device_id :: string
  private_flags :: "64 word"
  flash_size_of :: nat
  localstatedir_pkg :: string
  build_filename :: "string list \<Rightarrow> string"
  g_strloc :: "nat \<Rightarrow> string"
  mkdir_parent_result :: "gerror option"
  set_contents_result :: "gerror option"
  firmware_bytes :: "gerror + byte list"
  ifd_read :: "int \<times> flashrom_layout"
  image_read :: "nat \<Rightarrow> int \<times> byte list"
  image_write :: "byte list \<Rightarrow> nat \<Rightarrow> int"
  image_verify :: "byte list \<Rightarrow> nat \<Rightarrow> int"
  cmos_reset_result :: "gerror option"

text \<open>\<^verbatim>\<open>#define FU_FLASHROM_DEVICE_FLAG_RESET_CMOS (1 << 0)\<close>\<close>

definition FU_FLASHROM_DEVICE_FLAG_RESET_CMOS :: "64 word" where
  "FU_FLASHROM_DEVICE_FLAG_RESET_CMOS = push_bit 0 1"

definition fu_device_has_private_flag :: "fu_env \<Rightarrow> 64 word \<Rightarrow> bool" where
  "fu_device_has_private_flag env flag = (private_flags env AND flag \<noteq> 0)"

definition fu_device_get_id :: "fu_env \<Rightarrow> string" where
  "fu_device_get_id env = device_id env"

definition fu_flashrom_device_get_flash_size :: "fu_env \<Rightarrow> nat" where
  "fu_flashrom_device_get_flash_size env = flash_size_of env"

definition fu_firmware_get_bytes :: "fu_env \<Rightarrow> gerror + byte list" where
  "fu_firmware_get_bytes env = firmware_bytes env"

text \<open>\<^verbatim>\<open>g_build_filename\<close> of GLib joins the elements to one path.\<close>

definition g_build_filename :: "fu_env \<Rightarrow> string list \<Rightarrow> string" where
  "g_build_filename env elements = build_filename env elements"

text \<open>
  \<^verbatim>\<open>fu_common_mkdir_parent\<close> creates the directory of the path; \<^verbatim>\<open>None\<close> is success.
  Directories are not part of the state.
\<close>

definition fu_common_mkdir_parent :: "fu_env \<Rightarrow> string \<Rightarrow> fu_state \<Rightarrow> gerror option \<times> fu_state" where
  "fu_common_mkdir_parent env filename s = (mkdir_parent_result env, log_call (EvMkdirParent filename) s)"

text \<open>\<^verbatim>\<open>g_file_test (filename, G_FILE_TEST_EXISTS)\<close>\<close>

definition g_file_test_exists :: "string \<Rightarrow> fu_state \<Rightarrow> bool \<times> fu_state" where
  "g_file_test_exists filename s = (files s filename \<noteq> None, log_call (EvFileTest filename) s)"

text \<open>
  Modelled from the spec: \<^verbatim>\<open>fu_common_set_contents_bytes\<close> (libfwupdplugin, not in the
  sources at hand) persists the bytes atomically to the path: on success the file holds
  exactly the bytes, on failure the files are as before.
\<close>

definition fu_common_set_contents_bytes ::
  "fu_env \<Rightarrow> string \<Rightarrow> byte list \<Rightarrow> fu_state \<Rightarrow> gerror option \<times> fu_state" where
  "fu_common_set_contents_bytes env filename bytes s =
     (let s1 = log_call (EvSetContents filename bytes) s in
      case set_contents_result env of
        Some e \<Rightarrow> (Some e, s1)
      | None \<Rightarrow> (None, s1\<lparr>files := (files s1)(filename \<mapsto> bytes)\<rparr>))"

definition flashrom_layout_read_from_ifd :: "fu_env \<Rightarrow> fu_state \<Rightarrow> int \<times> flashrom_layout \<times> fu_state" where
  "flashrom_layout_read_from_ifd env s =
     (fst (ifd_read env), snd (ifd_read env), log_call EvLayoutReadFromIfd s)"

text \<open>
  Modelled from the spec: \<^verbatim>\<open>flashrom_layout_include_region\<close> (libflashrom, not in the
  sources at hand) restricts the layout to the requested region and fails if the name is
  not present in the layout. The first region of that name gets its included mark and
  the answer is 0; with no such region the layout is unchanged and the answer is 1.
\<close>

fun include_region :: "flashrom_layout \<Rightarrow> string \<Rightarrow> int \<times> flashrom_layout" where
  "include_region [] name = (1, [])"
| "include_region (e # es) name =
     (if region_name e = name then (0, e\<lparr>included := True\<rparr> # es)
      else (fst (include_region es name), e # snd (include_region es name)))"

definition flashrom_layout_include_region ::
  "flashrom_layout \<Rightarrow> string \<Rightarrow> fu_state \<Rightarrow> int \<times> flashrom_layout \<times> fu_state" where
  "flashrom_layout_include_region layout name s =
     (fst (include_region layout name), snd (include_region layout name),
      log_call (EvLayoutIncludeRegion name) s)"

definition flashrom_layout_set :: "flashrom_layout \<Rightarrow> fu_state \<Rightarrow> fu_state" where
  "flashrom_layout_set layout s = (log_call (EvLayoutSet layout) s)\<lparr>flashctx_layout := Some layout\<rparr>"

definition flashrom_layout_release :: "flashrom_layout \<Rightarrow> fu_state \<Rightarrow> fu_state" where
  "flashrom_layout_release layout s = log_call EvLayoutRelease s"

text \<open>
  \<^verbatim>\<open>flashrom_image_read (flashctx, buffer, len)\<close> stores the bytes the chip delivers at the
  start of the buffer; a C call cannot change the size of the buffer, and what it does
  not store stays as it was.
\<close>

definition store_bytes :: "byte list \<Rightarrow> byte list \<Rightarrow> byte list" where
  "store_bytes buffer bytes = take (length buffer) (bytes @ drop (length bytes) buffer)"

definition flashrom_image_read ::
  "fu_env \<Rightarrow> byte list \<Rightarrow> nat \<Rightarrow> fu_state \<Rightarrow> int \<times> byte list \<times> fu_state" where
  "flashrom_image_read env buffer len s =
     (fst (image_read env len), store_bytes buffer (snd (image_read env len)),
      log_call (EvImageRead len) s)"

definition flashrom_image_write :: "fu_env \<Rightarrow> byte list \<Rightarrow> nat \<Rightarrow> fu_state \<Rightarrow> int \<times> fu_state" where
  "flashrom_image_write env buffer len s = (image_write env buffer len, log_call (EvImageWrite buffer) s)"

definition flashrom_image_verify :: "fu_env \<Rightarrow> byte list \<Rightarrow> nat \<Rightarrow> fu_state \<Rightarrow> int \<times> fu_state" where
  "flashrom_image_verify env buffer len s = (image_verify env buffer len, log_call (EvImageVerify buffer) s)"

definition fu_flashrom_cmos_reset :: "fu_env \<Rightarrow> fu_state \<Rightarrow> gerror option \<times> fu_state" where
  "fu_flashrom_cmos_reset env s = (cmos_reset_result env, log_call EvCmosReset s)"

text \<open>
  Modelled from the spec: \<^verbatim>\<open>fu_progress_step_done\<close> marks the next phase of the ledger
  complete; each phase is marked complete once and in order, so with every phase
  complete already (or none registered) nothing is marked.
\<close>

definition fu_progress_step_done :: "fu_state \<Rightarrow> fu_state" where
  "fu_progress_step_done s =
     (let p = progress s in
      if step_now p < length (steps p)
      then (log_call (EvStepDone (fst (steps p ! step_now p))) s)\<lparr>progress := p\<lparr>step_now := Suc (step_now p)\<rparr>\<rparr>
      else s)"

subsection \<open>The two hooks\<close>

text \<open>
  \<^verbatim>\<open>fu_flashrom_internal_device_prepare\<close>: if the original firmware is not on disk yet,
  read it from the chip and store it. \<^verbatim>\<open>Inr ()\<close> is \<^verbatim>\<open>TRUE\<close>, \<^verbatim>\<open>Inl e\<close> is \<^verbatim>\<open>FALSE\<close> with
  the error set to \<open>e\<close>. The progress object of this hook is local.
\<close>

definition firmware_orig_path :: "fu_env \<Rightarrow> string" where
  "firmware_orig_path env =
     (let basename = ''flashrom-'' @ fu_device_get_id env @ ''.bin'';
          localstatedir = localstatedir_pkg env
      in g_build_filename env [localstatedir, ''builder'', basename])"

definition fu_flashrom_internal_device_prepare :: "fu_env \<Rightarrow> fu_state \<Rightarrow> (gerror + unit) \<times> fu_state" where
  "fu_flashrom_internal_device_prepare env s0 =
     (let progress0 = fu_progress_new (g_strloc env 52);
          firmware_orig = firmware_orig_path env
      in case fu_common_mkdir_parent env firmware_orig s0 of
           (Some e, s1) \<Rightarrow> (Inl e, s1)
         | (None, s1) \<Rightarrow>
             (case g_file_test_exists firmware_orig s1 of
                (True, s2) \<Rightarrow> (Inr (), s2)
              | (False, s2) \<Rightarrow>
                  (let flash_size = fu_flashrom_device_get_flash_size env;
                       newcontents = replicate flash_size (0 :: byte)
                   in case flashrom_layout_read_from_ifd env s2 of
                        (rc_ifd, layout, s3) \<Rightarrow>
                          if rc_ifd \<noteq> 0
                          then (Inl \<lparr>code = FWUPD_ERROR_READ,
                                     message = ''failed to read layout from Intel ICH descriptor''\<rparr>, s3)
                          else
                            (case flashrom_layout_include_region layout ''bios'' s3 of
                               (rc_inc, layout1, s4) \<Rightarrow>
                                 if rc_inc \<noteq> 0
                                 then (Inl \<lparr>code = FWUPD_ERROR_NOT_SUPPORTED,
                                            message = ''invalid region name''\<rparr>, s4)
                                 else
                                   (let s5 = flashrom_layout_set layout1 s4;
                                        progress1 = fu_progress_set_status progress0 FWUPD_STATUS_DEVICE_READ
                                    in case flashrom_image_read env newcontents flash_size s5 of
                                         (rc_read, newcontents1, s6) \<Rightarrow>
                                           if rc_read \<noteq> 0
                                           then (Inl \<lparr>code = FWUPD_ERROR_READ,
                                                      message = ''failed to back up original firmware''\<rparr>, s6)
                                           else
                                             (let buf = take flash_size newcontents1
                                              in case fu_common_set_contents_bytes env firmware_orig buf s6 of
                                                   (Some e, s7) \<Rightarrow> (Inl e, s7)
                                                 | (None, s7) \<Rightarrow> (Inr (), s7)))))))"

text \<open>
  \<^verbatim>\<open>fu_flashrom_internal_device_write_firmware\<close>: register the two phases, read the
  layout from the descriptor, include the bios region, set the layout, check the size of
  the image, write, verify, release the layout, and reset the CMOS if the device asks
  for it. The progress object is the caller's and lives in the state.
\<close>

definition fu_flashrom_internal_device_write_firmware ::
  "fu_env \<Rightarrow> fu_state \<Rightarrow> (gerror + unit) \<times> fu_state" where
  "fu_flashrom_internal_device_write_firmware env s0 =
     (let flash_size = fu_flashrom_device_get_flash_size env
      in case fu_firmware_get_bytes env of
           Inl e \<Rightarrow> (Inl e, s0)
         | Inr blob_fw \<Rightarrow>
             (let p1 = fu_progress_set_id (progress s0) (g_strloc env 123);
                  p2 = fu_progress_add_flag p1 FU_PROGRESS_FLAG_GUESSED;
                  p3 = fu_progress_add_step p2 FWUPD_STATUS_DEVICE_WRITE 90;
                  p4 = fu_progress_add_step p3 FWUPD_STATUS_DEVICE_VERIFY 10;
                  s1 = s0\<lparr>progress := p4\<rparr>;
                  buf = blob_fw;
                  sz = length blob_fw
              in case flashrom_layout_read_from_ifd env s1 of
                   (rc_ifd, layout, s2) \<Rightarrow>
                     if rc_ifd \<noteq> 0
                     then (Inl \<lparr>code = FWUPD_ERROR_READ,
                                message = ''failed to read layout from Intel ICH descriptor''\<rparr>, s2)
                     else
                       (case flashrom_layout_include_region layout ''bios'' s2 of
                          (rc_inc, layout1, s3) \<Rightarrow>
                            if rc_inc \<noteq> 0
                            then (Inl \<lparr>code = FWUPD_ERROR_NOT_SUPPORTED,
                                       message = ''invalid region name''\<rparr>, s3)
                            else
                              (let s4 = flashrom_layout_set layout1 s3
                               in if sz \<noteq> flash_size
                                  then (Inl \<lparr>code = FWUPD_ERROR_NOT_SUPPORTED,
                                             message = ''invalid image size 0x'' @ fmt_x (to_guint sz)
                                               @ '', expected 0x'' @ fmt_x (to_guint flash_size)\<rparr>, s4)
                                  else
                                    (case flashrom_image_write env buf sz s4 of
                                       (rc, s5) \<Rightarrow>
                                         if rc \<noteq> 0
                                         then (Inl \<lparr>code = FWUPD_ERROR_WRITE,
                                                    message = ''image write failed, err='' @ fmt_i rc\<rparr>, s5)
                                         else
                                           (let s6 = fu_progress_step_done s5
                                            in case flashrom_image_verify env buf sz s6 of
                                                 (rc_verify, s7) \<Rightarrow>
                                                   if rc_verify \<noteq> 0
                                                   then (Inl \<lparr>code = FWUPD_ERROR_WRITE,
                                                              message = ''image verify failed''\<rparr>, s7)
                                                   else
                                                     (let s8 = fu_progress_step_done s7;
                                                          s9 = flashrom_layout_release layout1 s8
                                                      in if fu_device_has_private_flag env
                                                              FU_FLASHROM_DEVICE_FLAG_RESET_CMOS
                                                         then
                                                           (case fu_flashrom_cmos_reset env s9 of
                                                              (Some e, s10) \<Rightarrow>
                                                                (Inl (g_prefix_error e ''failed CMOS reset: ''), s10)
                                                            | (None, s10) \<Rightarrow> (Inr (), s10))
                                                         else (Inr (), s9))))))))"

subsection \<open>Stages of a run and kinds of calls\<close>

text \<open>
  The layout is resolved when the descriptor is read and the bios region is in it; the
  layout that is set on the flash context is then the one with the bios region included.
\<close>

definition layout_resolves :: "fu_env \<Rightarrow> bool" where
  "layout_resolves env =
     (fst (ifd_read env) = 0 \<and> fst (include_region (snd (ifd_read env)) ''bios'') = 0)"

definition bios_layout :: "fu_env \<Rightarrow> flashrom_layout" where
  "bios_layout env = snd (include_region (snd (ifd_read env)) ''bios'')"

text \<open>The write primitive is reached and answers 0 for the image.\<close>

definition write_succeeds :: "fu_env \<Rightarrow> byte list \<Rightarrow> bool" where
  "write_succeeds env img =
     (layout_resolves env \<and> length img = fu_flashrom_device_get_flash_size env
      \<and> image_write env img (length img) = 0)"

text \<open>Write and verify both answer 0 for the image.\<close>

definition verify_succeeds :: "fu_env \<Rightarrow> byte list \<Rightarrow> bool" where
  "verify_succeeds env img = (write_succeeds env img \<and> image_verify env img (length img) = 0)"

text \<open>A progress object on which no phase is registered yet.\<close>

definition fresh_ledger :: "fu_progress \<Rightarrow> bool" where
  "fresh_ledger p = (steps p = [] \<and> step_now p = 0)"

fun is_image_read :: "event \<Rightarrow> bool" where
  "is_image_read (EvImageRead n) = True"
| "is_image_read _ = False"

fun is_set_contents :: "event \<Rightarrow> bool" where
  "is_set_contents (EvSetContents f b) = True"
| "is_set_contents _ = False"

fun is_image_write :: "event \<Rightarrow> bool" where
  "is_image_write (EvImageWrite b) = True"
| "is_image_write _ = False"

fun is_image_verify :: "event \<Rightarrow> bool" where
  "is_image_verify (EvImageVerify b) = True"
| "is_image_verify _ = False"

fun is_step_done :: "event \<Rightarrow> bool" where
  "is_step_done (EvStepDone st) = True"
| "is_step_done _ = False"

text \<open>The calls into libflashrom.\<close>

fun is_flash_access :: "event \<Rightarrow> bool" where
  "is_flash_access EvLayoutReadFromIfd = True"
| "is_flash_access (EvLayoutIncludeRegion n) = True"
| "is_flash_access (EvLayoutSet l) = True"
| "is_flash_access (EvImageRead n) = True"
| "is_flash_access (EvImageWrite b) = True"
| "is_flash_access (EvImageVerify b) = True"
| "is_flash_access EvLayoutRelease = True"
| "is_flash_access _ = False"

subsection \<open>A sample machine\<close>

text \<open>
  A chip of two bytes with a descriptor of two regions, a device without the reset-cmos
  flag, an image of the size of the chip, and collaborators that all succeed. The
  examples below start from it and change one answer at a time.
\<close>

fun join_path :: "string list \<Rightarrow> string" where
  "join_path [] = []"
| "join_path [x] = x"
| "join_path (x # y # ys) = x @ ''/'' @ join_path (y # ys)"

definition sample_layout :: flashrom_layout where
  "sample_layout =
     [\<lparr>region_start = 0, region_end = 0, included = False, region_name = ''me''\<rparr>,
      \<lparr>region_start = 1, region_end = 1, included = False, region_name = ''bios''\<rparr>]"

definition sample_env :: fu_env where
  "sample_env =
     \<lparr>device_id = ''abc'',
      private_flags = 0,
      flash_size_of = 2,
      localstatedir_pkg = ''/var/lib/fwupd'',
      build_filename = join_path,
      g_strloc = (\<lambda>line. ''fu-flashrom-internal-device.c''),
      mkdir_parent_result = None,
      set_contents_result = None,
      firmware_bytes = Inr [1, 2],
      ifd_read = (0, sample_layout),
      image_read = (\<lambda>len. (0, [7, 9])),
      image_write = (\<lambda>buffer len. 0),
      image_verify = (\<lambda>buffer len. 0),
      cmos_reset_result = None\<rparr>"

definition sample_state :: fu_state where
  "sample_state =
     \<lparr>calls = [], files = Map.empty, flashctx_layout = None, progress = fu_progress_new []\<rparr>"

text \<open>The same machine with one answer changed.\<close>

definition sample_env_no_bios :: fu_env where
  "sample_env_no_bios =
     sample_env\<lparr>ifd_read :=
       (0, [\<lparr>region_start = 0, region_end = 1, included = False, region_name = ''me''\<rparr>])\<rparr>"

definition sample_env_write_fails :: fu_env where
  "sample_env_write_fails = sample_env\<lparr>image_write := (\<lambda>buffer len. 1)\<rparr>"

definition sample_env_verify_fails :: fu_env where
  "sample_env_verify_fails = sample_env\<lparr>image_verify := (\<lambda>buffer len. 1)\<rparr>"

definition sample_env_reset_fails :: fu_env where
  "sample_env_reset_fails =
     sample_env\<lparr>private_flags := 1,
       cmos_reset_result := Some \<lparr>code = FWUPD_ERROR_OTHER ''internal'', message = ''no port access''\<rparr>\<rparr>"

subsection \<open>The ledger along a run\<close>

text \<open>
  The ledger after the four registration calls of \<^verbatim>\<open>write_firmware\<close>, and what one
  \<^verbatim>\<open>fu_progress_step_done\<close> adds to the calls and does to the ledger.
\<close>

definition registered :: "fu_env \<Rightarrow> fu_progress \<Rightarrow> fu_progress" where
  "registered env p =
     fu_progress_add_step
       (fu_progress_add_step
          (fu_progress_add_flag (fu_progress_set_id p (g_strloc env 123)) FU_PROGRESS_FLAG_GUESSED)
          FWUPD_STATUS_DEVICE_WRITE 90)
       FWUPD_STATUS_DEVICE_VERIFY 10"

definition step_events :: "fu_progress \<Rightarrow> event list" where
  "step_events p =
     (if step_now p < length (steps p) then [EvStepDone (fst (steps p ! step_now p))] else [])"

definition step_advance :: "fu_progress \<Rightarrow> fu_progress" where
  "step_advance p = (if step_now p < length (steps p) then p\<lparr>step_now := Suc (step_now p)\<rparr> else p)"

section \<open>Properties\<close>

subsection \<open>Auxiliary facts\<close>

lemmas prim_defs =
  fu_common_mkdir_parent_def g_file_test_exists_def fu_common_set_contents_bytes_def
  flashrom_layout_read_from_ifd_def flashrom_layout_include_region_def flashrom_layout_set_def
  flashrom_layout_release_def flashrom_image_read_def flashrom_image_write_def
  flashrom_image_verify_def fu_flashrom_cmos_reset_def fu_progress_step_done_def
  fu_progress_set_id_def fu_progress_add_flag_def fu_progress_add_step_def
  fu_progress_set_status_def fu_progress_new_def fu_device_get_id_def
  fu_flashrom_device_get_flash_size_def fu_firmware_get_bytes_def log_call_def new_calls_def

lemmas stage_defs =
  layout_resolves_def bios_layout_def write_succeeds_def verify_succeeds_def fresh_ledger_def

lemmas sample_defs =
  sample_env_no_bios_def sample_env_write_fails_def sample_env_verify_fails_def
  sample_env_reset_fails_def sample_env_def sample_state_def sample_layout_def firmware_orig_path_def g_build_filename_def
  steps_done_def store_bytes_def

lemma include_region_rc:
  "fst (include_region layout name) = (if name \<in> region_name ` set layout then 0 else 1)"
  by (induction layout) auto

lemma include_region_absent:
  "name \<notin> region_name ` set layout \<Longrightarrow> include_region layout name = (1, layout)"
  by (induction layout) (auto simp: prod_eq_iff)

lemma include_region_marks:
  "name \<in> region_name ` set layout \<Longrightarrow>
     \<exists>e \<in> set (snd (include_region layout name)). region_name e = name \<and> included e"
  by (induction layout) auto

lemma length_store_bytes: "length (store_bytes buffer bytes) = length buffer"
  by (simp add: store_bytes_def)

lemma store_bytes_full: "length bytes = length buffer \<Longrightarrow> store_bytes buffer bytes = bytes"
  by (simp add: store_bytes_def)

lemma fmt_x_small: "fmt_x (Suc 0) = ''1''" "fmt_x 2 = ''2''"
  by (simp_all add: fmt_x.simps hex_digit_def)

lemma fmt_i_small: "fmt_i 1 = ''1''" "fmt_i (- 3) = ''-3''"
  by (simp_all add: fmt_i_def fmt_u.simps hex_digit_def)

lemma step_done_eq:
  "fu_progress_step_done s =
     s\<lparr>calls := calls s @ step_events (progress s), progress := step_advance (progress s)\<rparr>"
  by (simp add: fu_progress_step_done_def step_events_def step_advance_def log_call_def Let_def)

lemmas call_defs =
  flashrom_layout_read_from_ifd_def flashrom_layout_include_region_def flashrom_layout_set_def
  flashrom_layout_release_def flashrom_image_write_def flashrom_image_verify_def
  fu_flashrom_cmos_reset_def fu_flashrom_device_get_flash_size_def fu_firmware_get_bytes_def
  log_call_def step_done_eq

lemma wf_no_bytes:
  "fu_firmware_get_bytes env = Inl e \<Longrightarrow> fu_flashrom_internal_device_write_firmware env s = (Inl e, s)"
  by (simp add: fu_flashrom_internal_device_write_firmware_def)

lemma wf_ifd_fails:
  assumes "fu_firmware_get_bytes env = Inr img" and "fst (ifd_read env) \<noteq> 0"
  shows "fu_flashrom_internal_device_write_firmware env s =
    (Inl \<lparr>code = FWUPD_ERROR_READ, message = ''failed to read layout from Intel ICH descriptor''\<rparr>,
     s\<lparr>calls := calls s @ [EvLayoutReadFromIfd], progress := registered env (progress s)\<rparr>)"
  using assms
  by (simp add: fu_flashrom_internal_device_write_firmware_def call_defs registered_def Let_def)

lemma wf_region_fails:
  assumes "fu_firmware_get_bytes env = Inr img" and "fst (ifd_read env) = 0"
    and "fst (include_region (snd (ifd_read env)) ''bios'') \<noteq> 0"
  shows "fu_flashrom_internal_device_write_firmware env s =
    (Inl \<lparr>code = FWUPD_ERROR_NOT_SUPPORTED, message = ''invalid region name''\<rparr>,
     s\<lparr>calls := calls s @ [EvLayoutReadFromIfd, EvLayoutIncludeRegion ''bios''],
       progress := registered env (progress s)\<rparr>)"
  using assms
  by (simp add: fu_flashrom_internal_device_write_firmware_def call_defs registered_def Let_def)

lemma wf_size_fails:
  assumes "fu_firmware_get_bytes env = Inr img" and "layout_resolves env"
    and "length img \<noteq> fu_flashrom_device_get_flash_size env"
  shows "fu_flashrom_internal_device_write_firmware env s =
    (Inl \<lparr>code = FWUPD_ERROR_NOT_SUPPORTED,
          message = ''invalid image size 0x'' @ fmt_x (to_guint (length img))
            @ '', expected 0x'' @ fmt_x (to_guint (fu_flashrom_device_get_flash_size env))\<rparr>,
     s\<lparr>calls := calls s @ [EvLayoutReadFromIfd, EvLayoutIncludeRegion ''bios'', EvLayoutSet (bios_layout env)],
       flashctx_layout := Some (bios_layout env),
       progress := registered env (progress s)\<rparr>)"
  using assms
  by (simp add: fu_flashrom_internal_device_write_firmware_def call_defs registered_def
      layout_resolves_def bios_layout_def Let_def)

lemma wf_write_fails:
  assumes "fu_firmware_get_bytes env = Inr img" and "layout_resolves env"
    and "length img = fu_flashrom_device_get_flash_size env"
    and "image_write env img (length img) \<noteq> 0"
  shows "fu_flashrom_internal_device_write_firmware env s =
    (Inl \<lparr>code = FWUPD_ERROR_WRITE,
          message = ''image write failed, err='' @ fmt_i (image_write env img (length img))\<rparr>,
     s\<lparr>calls := calls s @ [EvLayoutReadFromIfd, EvLayoutIncludeRegion ''bios'', EvLayoutSet (bios_layout env),
                           EvImageWrite img],
       flashctx_layout := Some (bios_layout env),
       progress := registered env (progress s)\<rparr>)"
  using assms
  by (auto simp add: fu_flashrom_internal_device_write_firmware_def call_defs registered_def
      layout_resolves_def bios_layout_def Let_def)

lemma wf_verify_fails:
  assumes "fu_firmware_get_bytes env = Inr img" and "write_succeeds env img"
    and "image_verify env img (length img) \<noteq> 0"
  shows "fu_flashrom_internal_device_write_firmware env s =
    (Inl \<lparr>code = FWUPD_ERROR_WRITE, message = ''image verify failed''\<rparr>,
     s\<lparr>calls := calls s @ [EvLayoutReadFromIfd, EvLayoutIncludeRegion ''bios'', EvLayoutSet (bios_layout env),
                           EvImageWrite img]
                  @ step_events (registered env (progress s)) @ [EvImageVerify img],
       flashctx_layout := Some (bios_layout env),
       progress := step_advance (registered env (progress s))\<rparr>)"
  using assms
  by (auto simp add: fu_flashrom_internal_device_write_firmware_def call_defs registered_def
      write_succeeds_def layout_resolves_def bios_layout_def Let_def)

lemma wf_verified:
  assumes "fu_firmware_get_bytes env = Inr img" and "verify_succeeds env img"
  shows "fu_flashrom_internal_device_write_firmware env s =
    (if fu_device_has_private_flag env FU_FLASHROM_DEVICE_FLAG_RESET_CMOS
     then (case cmos_reset_result env of
             None \<Rightarrow> Inr ()
           | Some e \<Rightarrow> Inl (g_prefix_error e ''failed CMOS reset: ''))
     else Inr (),
     s\<lparr>calls := calls s @ [EvLayoutReadFromIfd, EvLayoutIncludeRegion ''bios'', EvLayoutSet (bios_layout env),
                           EvImageWrite img]
                  @ step_events (registered env (progress s)) @ [EvImageVerify img]
                  @ step_events (step_advance (registered env (progress s))) @ [EvLayoutRelease]
                  @ (if fu_device_has_private_flag env FU_FLASHROM_DEVICE_FLAG_RESET_CMOS
                     then [EvCmosReset] else []),
       flashctx_layout := Some (bios_layout env),
       progress := step_advance (step_advance (registered env (progress s)))\<rparr>)"
  using assms
  by (auto simp add: fu_flashrom_internal_device_write_firmware_def call_defs registered_def
      verify_succeeds_def write_succeeds_def layout_resolves_def bios_layout_def Let_def
      split: option.splits)

lemma fresh_registered:
  assumes "fresh_ledger p"
  shows "steps (registered env p) = [(FWUPD_STATUS_DEVICE_WRITE, 90), (FWUPD_STATUS_DEVICE_VERIFY, 10)]"
    and "steps (step_advance (registered env p)) = [(FWUPD_STATUS_DEVICE_WRITE, 90), (FWUPD_STATUS_DEVICE_VERIFY, 10)]"
    and "steps (step_advance (step_advance (registered env p))) = [(FWUPD_STATUS_DEVICE_WRITE, 90), (FWUPD_STATUS_DEVICE_VERIFY, 10)]"
    and "step_now (registered env p) = 0"
    and "step_now (step_advance (registered env p)) = 1"
    and "step_now (step_advance (step_advance (registered env p))) = 2"
    and "step_events (registered env p) = [EvStepDone FWUPD_STATUS_DEVICE_WRITE]"
    and "step_events (step_advance (registered env p)) = [EvStepDone FWUPD_STATUS_DEVICE_VERIFY]"
  using assms
  by (simp_all add: fresh_ledger_def registered_def step_advance_def step_events_def
      fu_progress_add_step_def fu_progress_add_flag_def fu_progress_set_id_def)

lemma step_events_no_flash [simp]:
  "EvLayoutRelease \<notin> set (step_events p)" "EvCmosReset \<notin> set (step_events p)"
  "filter is_image_write (step_events p) = []" "filter is_image_verify (step_events p) = []"
  "count_list (step_events p) EvLayoutRelease = 0" "count_list (step_events p) EvCmosReset = 0"
  by (simp_all add: step_events_def)

lemma wf_stage_cases:
  obtains (c_ifd) "fst (ifd_read env) \<noteq> 0"
  | (c_region) "fst (ifd_read env) = 0" "fst (include_region (snd (ifd_read env)) ''bios'') \<noteq> 0"
  | (c_size) "layout_resolves env" "length img \<noteq> fu_flashrom_device_get_flash_size env"
  | (c_write) "layout_resolves env" "length img = fu_flashrom_device_get_flash_size env"
      "image_write env img (length img) \<noteq> 0"
  | (c_verify) "write_succeeds env img" "image_verify env img (length img) \<noteq> 0"
  | (c_verified) "verify_succeeds env img"
  unfolding verify_succeeds_def write_succeeds_def layout_resolves_def by blast


lemma prepare_existing:
  assumes "mkdir_parent_result env = None" and "files s (firmware_orig_path env) \<noteq> None"
  shows "fu_flashrom_internal_device_prepare env s =
    (Inr (), s\<lparr>calls := calls s @ [EvMkdirParent (firmware_orig_path env), EvFileTest (firmware_orig_path env)]\<rparr>)"
  using assms
  by (auto simp: fu_flashrom_internal_device_prepare_def prim_defs Let_def
      split: prod.splits option.splits bool.splits)

lemma prepare_existing_any:
  assumes "files s (firmware_orig_path env) \<noteq> None"
  shows "snd (fu_flashrom_internal_device_prepare env s) =
    s\<lparr>calls := calls s @
      (case mkdir_parent_result env of
         None \<Rightarrow> [EvMkdirParent (firmware_orig_path env), EvFileTest (firmware_orig_path env)]
       | Some e \<Rightarrow> [EvMkdirParent (firmware_orig_path env)])\<rparr>"
  using assms
  by (auto simp: fu_flashrom_internal_device_prepare_def prim_defs Let_def
      split: prod.splits option.splits bool.splits)

lemma prepare_created:
  assumes "files s (firmware_orig_path env) = None"
    and "fst (fu_flashrom_internal_device_prepare env s) = Inr ()"
  shows "snd (fu_flashrom_internal_device_prepare env s) =
    s\<lparr>calls := calls s @
          [EvMkdirParent (firmware_orig_path env), EvFileTest (firmware_orig_path env),
           EvLayoutReadFromIfd, EvLayoutIncludeRegion ''bios'', EvLayoutSet (bios_layout env),
           EvImageRead (fu_flashrom_device_get_flash_size env),
           EvSetContents (firmware_orig_path env)
             (store_bytes (replicate (fu_flashrom_device_get_flash_size env) 0)
                (snd (image_read env (fu_flashrom_device_get_flash_size env))))],
       files := (files s)(firmware_orig_path env \<mapsto>
             store_bytes (replicate (fu_flashrom_device_get_flash_size env) 0)
                (snd (image_read env (fu_flashrom_device_get_flash_size env)))),
       flashctx_layout := Some (bios_layout env)\<rparr>"
    and "mkdir_parent_result env = None" and "layout_resolves env"
    and "fst (image_read env (fu_flashrom_device_get_flash_size env)) = 0"
    and "set_contents_result env = None"
  using assms
  by (auto simp: fu_flashrom_internal_device_prepare_def prim_defs stage_defs Let_def length_store_bytes
      split: prod.splits option.splits bool.splits if_splits)

lemma store_bytes_nth:
  "i < length buffer \<Longrightarrow>
     store_bytes buffer bytes ! i = (if i < length bytes then bytes ! i else buffer ! i)"
  by (simp add: store_bytes_def nth_append)

lemmas hook_defs = fu_flashrom_internal_device_write_firmware_def fu_flashrom_internal_device_prepare_def

lemmas eval_defs = hook_defs sample_defs prim_defs stage_defs Let_def
  fu_device_has_private_flag_def FU_FLASHROM_DEVICE_FLAG_RESET_CMOS_def g_prefix_error_def

lemma sample_prepare:
  "fu_flashrom_internal_device_prepare sample_env sample_state =
    (Inr (),
     sample_state\<lparr>calls :=
       [EvMkdirParent ''/var/lib/fwupd/builder/flashrom-abc.bin'',
        EvFileTest ''/var/lib/fwupd/builder/flashrom-abc.bin'',
        EvLayoutReadFromIfd, EvLayoutIncludeRegion ''bios'',
        EvLayoutSet [\<lparr>region_start = 0, region_end = 0, included = False, region_name = ''me''\<rparr>,
                     \<lparr>region_start = 1, region_end = 1, included = True, region_name = ''bios''\<rparr>],
        EvImageRead 2,
        EvSetContents ''/var/lib/fwupd/builder/flashrom-abc.bin'' [7, 9]],
       files := [''/var/lib/fwupd/builder/flashrom-abc.bin'' \<mapsto> [7, 9]],
       flashctx_layout :=
         Some [\<lparr>region_start = 0, region_end = 0, included = False, region_name = ''me''\<rparr>,
               \<lparr>region_start = 1, region_end = 1, included = True, region_name = ''bios''\<rparr>]\<rparr>)"
  by (simp add: hook_defs sample_defs prim_defs Let_def)

subsection \<open>The size check of the image\<close>

text \<open>
  Claim C1, as the code has it. For every update image whose length differs from the
  size of the flash chip, \<^verbatim>\<open>write_firmware\<close> fails, and the write and the verify primitive
  are never called. The size is checked after the layout is resolved and set, not before:
  the descriptor is read exactly once on the way. When the layout resolves, the failure
  is the size mismatch, a not-supported error whose message names the size of the image
  and the size expected, both cut to 32 bits, and the calls made are the descriptor
  read, the restriction to the bios region and the activation of the layout.
\<close>

theorem C1_size_gate:
  assumes "fu_firmware_get_bytes env = Inr img"
    and "length img \<noteq> fu_flashrom_device_get_flash_size env"
  shows "(\<exists>e. fst (fu_flashrom_internal_device_write_firmware env s) = Inl e)
    \<and> filter is_image_write (new_calls s (snd (fu_flashrom_internal_device_write_firmware env s))) = []
    \<and> filter is_image_verify (new_calls s (snd (fu_flashrom_internal_device_write_firmware env s))) = []
    \<and> count_list (new_calls s (snd (fu_flashrom_internal_device_write_firmware env s))) EvLayoutReadFromIfd = 1
    \<and> (layout_resolves env \<longrightarrow>
         fst (fu_flashrom_internal_device_write_firmware env s) =
           Inl \<lparr>code = FWUPD_ERROR_NOT_SUPPORTED,
                message = ''invalid image size 0x'' @ fmt_x (length img mod 2 ^ 32)
                  @ '', expected 0x'' @ fmt_x (fu_flashrom_device_get_flash_size env mod 2 ^ 32)\<rparr>
         \<and> new_calls s (snd (fu_flashrom_internal_device_write_firmware env s)) =
             [EvLayoutReadFromIfd, EvLayoutIncludeRegion ''bios'', EvLayoutSet (bios_layout env)])"
  using assms
  by (auto simp: fu_flashrom_internal_device_write_firmware_def prim_defs stage_defs to_guint_def Let_def
      split: prod.splits sum.splits option.splits if_splits)

text \<open>
  Claim C1, an instance: an image of one byte for the chip of two bytes is refused with
  the message naming both sizes.
\<close>

theorem C1_size_gate_witness:
  "fu_firmware_get_bytes (sample_env\<lparr>firmware_bytes := Inr [1]\<rparr>) = Inr [1]
   \<and> length [1 :: byte] \<noteq> fu_flashrom_device_get_flash_size (sample_env\<lparr>firmware_bytes := Inr [1]\<rparr>)
   \<and> layout_resolves (sample_env\<lparr>firmware_bytes := Inr [1]\<rparr>)
   \<and> fst (fu_flashrom_internal_device_write_firmware (sample_env\<lparr>firmware_bytes := Inr [1]\<rparr>) sample_state) =
       Inl \<lparr>code = FWUPD_ERROR_NOT_SUPPORTED, message = ''invalid image size 0x1, expected 0x2''\<rparr>"
  using C1_size_gate [of "sample_env\<lparr>firmware_bytes := Inr [1]\<rparr>" "[1]" sample_state]
  by (simp add: sample_defs prim_defs stage_defs fmt_x_small)

text \<open>
  Claim C1, as stated, fails: with an image of one byte for the chip of two bytes the
  descriptor is read, the bios region included and the layout set on the flash context
  before the size is looked at, so the failure does not come before every
  flash-access call.
\<close>

theorem C1_counterexample:
  "fu_firmware_get_bytes (sample_env\<lparr>firmware_bytes := Inr [1]\<rparr>) = Inr [1]
   \<and> length [1 :: byte] \<noteq> fu_flashrom_device_get_flash_size (sample_env\<lparr>firmware_bytes := Inr [1]\<rparr>)
   \<and> new_calls sample_state
       (snd (fu_flashrom_internal_device_write_firmware (sample_env\<lparr>firmware_bytes := Inr [1]\<rparr>) sample_state))
     = [EvLayoutReadFromIfd, EvLayoutIncludeRegion ''bios'',
        EvLayoutSet [\<lparr>region_start = 0, region_end = 0, included = False, region_name = ''me''\<rparr>,
                     \<lparr>region_start = 1, region_end = 1, included = True, region_name = ''bios''\<rparr>]]"
  by (simp add: fu_flashrom_internal_device_write_firmware_def sample_defs prim_defs Let_def)

subsection \<open>The backup of the original firmware\<close>

text \<open>
  Claim C2. The backup step is idempotent. When a file exists at the backup path
  already, \<^verbatim>\<open>prepare\<close> makes no libflashrom call and writes no file, and the files are as
  before; with the directory of the backup in place (the directory call comes first and
  succeeds) it returns success after the directory call and the existence test alone.
  And two calls in succession for the same backup path, the first of which starts
  without a backup and succeeds, read the chip exactly once and write the file exactly
  once: the second call succeeds, makes no libflashrom call and leaves the files as the
  first call left them.
\<close>

theorem C2_backup_idempotent:
  "(files s (firmware_orig_path env2) \<noteq> None \<longrightarrow>
      filter is_flash_access (new_calls s (snd (fu_flashrom_internal_device_prepare env2 s))) = []
    \<and> filter is_set_contents (new_calls s (snd (fu_flashrom_internal_device_prepare env2 s))) = []
    \<and> files (snd (fu_flashrom_internal_device_prepare env2 s)) = files s
    \<and> (mkdir_parent_result env2 = None \<longrightarrow>
          fst (fu_flashrom_internal_device_prepare env2 s) = Inr ()
        \<and> new_calls s (snd (fu_flashrom_internal_device_prepare env2 s)) =
            [EvMkdirParent (firmware_orig_path env2), EvFileTest (firmware_orig_path env2)]))
   \<and> (files s (firmware_orig_path env1) = None
      \<and> fst (fu_flashrom_internal_device_prepare env1 s) = Inr ()
      \<and> firmware_orig_path env2 = firmware_orig_path env1
      \<and> mkdir_parent_result env2 = None \<longrightarrow>
        fst (fu_flashrom_internal_device_prepare env2 (snd (fu_flashrom_internal_device_prepare env1 s))) = Inr ()
      \<and> length (filter is_image_read (new_calls s
           (snd (fu_flashrom_internal_device_prepare env2 (snd (fu_flashrom_internal_device_prepare env1 s)))))) = 1
      \<and> length (filter is_set_contents (new_calls s
           (snd (fu_flashrom_internal_device_prepare env2 (snd (fu_flashrom_internal_device_prepare env1 s)))))) = 1
      \<and> filter is_flash_access (new_calls (snd (fu_flashrom_internal_device_prepare env1 s))
           (snd (fu_flashrom_internal_device_prepare env2 (snd (fu_flashrom_internal_device_prepare env1 s))))) = []
      \<and> files (snd (fu_flashrom_internal_device_prepare env2 (snd (fu_flashrom_internal_device_prepare env1 s))))
          = files (snd (fu_flashrom_internal_device_prepare env1 s)))"
proof (intro conjI impI)
  assume ex: "files s (firmware_orig_path env2) \<noteq> None"
  note a = prepare_existing_any [OF ex]
  show "filter is_flash_access (new_calls s (snd (fu_flashrom_internal_device_prepare env2 s))) = []"
    by (simp add: a new_calls_def split: option.splits)
  show "filter is_set_contents (new_calls s (snd (fu_flashrom_internal_device_prepare env2 s))) = []"
    by (simp add: a new_calls_def split: option.splits)
  show "files (snd (fu_flashrom_internal_device_prepare env2 s)) = files s" by (simp add: a)
  assume m: "mkdir_parent_result env2 = None"
  note e = prepare_existing [OF m ex]
  show "fst (fu_flashrom_internal_device_prepare env2 s) = Inr ()" by (simp add: e)
  show "new_calls s (snd (fu_flashrom_internal_device_prepare env2 s)) =
      [EvMkdirParent (firmware_orig_path env2), EvFileTest (firmware_orig_path env2)]"
    by (simp add: e new_calls_def)
next
  assume a: "files s (firmware_orig_path env1) = None
      \<and> fst (fu_flashrom_internal_device_prepare env1 s) = Inr ()
      \<and> firmware_orig_path env2 = firmware_orig_path env1
      \<and> mkdir_parent_result env2 = None"
  then have m: "mkdir_parent_result env2 = None" by simp
  define s1 where "s1 = snd (fu_flashrom_internal_device_prepare env1 s)"
  have s1: "s1 = s\<lparr>calls := calls s @
          [EvMkdirParent (firmware_orig_path env1), EvFileTest (firmware_orig_path env1),
           EvLayoutReadFromIfd, EvLayoutIncludeRegion ''bios'', EvLayoutSet (bios_layout env1),
           EvImageRead (fu_flashrom_device_get_flash_size env1),
           EvSetContents (firmware_orig_path env1)
             (store_bytes (replicate (fu_flashrom_device_get_flash_size env1) 0)
                (snd (image_read env1 (fu_flashrom_device_get_flash_size env1))))],
       files := (files s)(firmware_orig_path env1 \<mapsto>
             store_bytes (replicate (fu_flashrom_device_get_flash_size env1) 0)
                (snd (image_read env1 (fu_flashrom_device_get_flash_size env1)))),
       flashctx_layout := Some (bios_layout env1)\<rparr>"
    unfolding s1_def using a prepare_created(1) by blast
  have ex: "files s1 (firmware_orig_path env2) \<noteq> None" using a by (simp add: s1)
  note e = prepare_existing [OF m ex]
  show "fst (fu_flashrom_internal_device_prepare env2 (snd (fu_flashrom_internal_device_prepare env1 s))) = Inr ()"
    unfolding s1_def [symmetric] by (simp add: e)
  show "length (filter is_image_read (new_calls s
               (snd (fu_flashrom_internal_device_prepare env2 (snd (fu_flashrom_internal_device_prepare env1 s)))))) = 1"
    unfolding s1_def [symmetric] by (simp add: e new_calls_def) (simp add: s1)
  show "length (filter is_set_contents (new_calls s
               (snd (fu_flashrom_internal_device_prepare env2 (snd (fu_flashrom_internal_device_prepare env1 s)))))) = 1"
    unfolding s1_def [symmetric] by (simp add: e new_calls_def) (simp add: s1)
  show "filter is_flash_access (new_calls (snd (fu_flashrom_internal_device_prepare env1 s))
               (snd (fu_flashrom_internal_device_prepare env2 (snd (fu_flashrom_internal_device_prepare env1 s))))) = []"
    unfolding s1_def [symmetric] by (simp add: e new_calls_def)
  show "files (snd (fu_flashrom_internal_device_prepare env2 (snd (fu_flashrom_internal_device_prepare env1 s))))
              = files (snd (fu_flashrom_internal_device_prepare env1 s))"
    unfolding s1_def [symmetric] by (simp add: e)
qed

text \<open>
  Claim C3. When no backup exists and \<^verbatim>\<open>prepare\<close> succeeds, the one file it creates is
  at the path that \<^verbatim>\<open>g_build_filename\<close> makes of the package state directory,
  \<^verbatim>\<open>builder\<close> and \<^verbatim>\<open>flashrom-<id>.bin\<close>; joined by slashes that is
  \<^verbatim>\<open><localstatedir>/builder/flashrom-<id>.bin\<close>. Its contents are the buffer of the size of
  the chip, zero at first, with the bytes read from the chip stored in it: as long as the
  chip, byte for byte what the chip delivered and zero beyond, and equal to the bytes
  read when the chip delivers as many as its size.
\<close>

text \<open>
  Claim C2, an instance: on the sample machine the first call creates the backup of the two bytes read, and the second call, made on the state the first one left, succeeds with the directory call and the existence test alone.
\<close>

theorem C2_backup_idempotent_witness:
  "mkdir_parent_result sample_env = None
   \<and> files sample_state (firmware_orig_path sample_env) = None
   \<and> fst (fu_flashrom_internal_device_prepare sample_env sample_state) = Inr ()
   \<and> files (snd (fu_flashrom_internal_device_prepare sample_env sample_state))
        (firmware_orig_path sample_env) = Some [7, 9]
   \<and> fst (fu_flashrom_internal_device_prepare sample_env
        (snd (fu_flashrom_internal_device_prepare sample_env sample_state))) = Inr ()
   \<and> length (filter is_image_read (new_calls sample_state
        (snd (fu_flashrom_internal_device_prepare sample_env
           (snd (fu_flashrom_internal_device_prepare sample_env sample_state)))))) = 1
   \<and> length (filter is_set_contents (new_calls sample_state
        (snd (fu_flashrom_internal_device_prepare sample_env
           (snd (fu_flashrom_internal_device_prepare sample_env sample_state)))))) = 1
   \<and> new_calls (snd (fu_flashrom_internal_device_prepare sample_env sample_state))
        (snd (fu_flashrom_internal_device_prepare sample_env
           (snd (fu_flashrom_internal_device_prepare sample_env sample_state))))
      = [EvMkdirParent ''/var/lib/fwupd/builder/flashrom-abc.bin'',
         EvFileTest ''/var/lib/fwupd/builder/flashrom-abc.bin'']"
proof -
  have p: "firmware_orig_path sample_env = ''/var/lib/fwupd/builder/flashrom-abc.bin''"
    by (simp add: sample_defs fu_device_get_id_def)
  have m: "mkdir_parent_result sample_env = None" by (simp add: sample_env_def)
  have f: "files sample_state ''/var/lib/fwupd/builder/flashrom-abc.bin'' = None"
    and c: "calls sample_state = []" by (simp_all add: sample_state_def)
  from C2_backup_idempotent [where ?env2.0 = sample_env and ?env1.0 = sample_env
        and s = "snd (fu_flashrom_internal_device_prepare sample_env sample_state)"]
    C2_backup_idempotent [where ?env2.0 = sample_env and ?env1.0 = sample_env and s = sample_state]
  show ?thesis
    by (simp add: m f c sample_prepare p new_calls_def)
qed

theorem C3_backup_artifact:
  assumes "files s (firmware_orig_path env) = None"
    and "fst (fu_flashrom_internal_device_prepare env s) = Inr ()"
  shows "files (snd (fu_flashrom_internal_device_prepare env s)) =
           (files s)(g_build_filename env
                       [localstatedir_pkg env, ''builder'', ''flashrom-'' @ fu_device_get_id env @ ''.bin'']
              \<mapsto> store_bytes (replicate (fu_flashrom_device_get_flash_size env) 0)
                    (snd (image_read env (fu_flashrom_device_get_flash_size env))))
    \<and> length (store_bytes (replicate (fu_flashrom_device_get_flash_size env) 0)
                 (snd (image_read env (fu_flashrom_device_get_flash_size env))))
        = fu_flashrom_device_get_flash_size env
    \<and> (\<forall>i < fu_flashrom_device_get_flash_size env.
          store_bytes (replicate (fu_flashrom_device_get_flash_size env) 0)
            (snd (image_read env (fu_flashrom_device_get_flash_size env))) ! i
          = (if i < length (snd (image_read env (fu_flashrom_device_get_flash_size env)))
             then snd (image_read env (fu_flashrom_device_get_flash_size env)) ! i else 0))
    \<and> (length (snd (image_read env (fu_flashrom_device_get_flash_size env)))
          = fu_flashrom_device_get_flash_size env \<longrightarrow>
        files (snd (fu_flashrom_internal_device_prepare env s))
          (g_build_filename env
             [localstatedir_pkg env, ''builder'', ''flashrom-'' @ fu_device_get_id env @ ''.bin''])
        = Some (snd (image_read env (fu_flashrom_device_get_flash_size env))))
    \<and> (build_filename env = join_path \<longrightarrow>
        g_build_filename env
          [localstatedir_pkg env, ''builder'', ''flashrom-'' @ fu_device_get_id env @ ''.bin'']
        = localstatedir_pkg env @ ''/builder/flashrom-'' @ device_id env @ ''.bin'')"
proof -
  have p: "firmware_orig_path env = g_build_filename env
             [localstatedir_pkg env, ''builder'', ''flashrom-'' @ fu_device_get_id env @ ''.bin'']"
    by (simp add: firmware_orig_path_def Let_def)
  note c = prepare_created(1) [OF assms]
  show ?thesis
    by (simp add: c p [symmetric] length_store_bytes store_bytes_nth store_bytes_full)
      (simp add: p g_build_filename_def fu_device_get_id_def)
qed

text \<open>
  Claim C10. \<^verbatim>\<open>prepare\<close> never calls the release of a layout, on no path. When it creates
  a backup, its libflashrom calls are the descriptor read, the restriction to the bios
  region, the activation of the layout on the flash context and the read of the chip;
  the layout stays set on the flash context, with the bios region marked included.
\<close>

text \<open>
  Claim C3, an instance: on the sample machine the backup is the file \<^verbatim>\<open>/var/lib/fwupd/builder/flashrom-abc.bin\<close> and holds the two bytes read from the chip.
\<close>

theorem C3_backup_artifact_witness:
  "files sample_state (firmware_orig_path sample_env) = None
   \<and> fst (fu_flashrom_internal_device_prepare sample_env sample_state) = Inr ()
   \<and> build_filename sample_env = join_path
   \<and> length (snd (image_read sample_env (fu_flashrom_device_get_flash_size sample_env)))
        = fu_flashrom_device_get_flash_size sample_env
   \<and> files (snd (fu_flashrom_internal_device_prepare sample_env sample_state))
        ''/var/lib/fwupd/builder/flashrom-abc.bin'' = Some [7, 9]"
  using C3_backup_artifact [of sample_state sample_env]
  by (simp add: sample_prepare) (simp add: sample_defs prim_defs)

theorem C10_prepare_never_releases:
  "EvLayoutRelease \<notin> set (new_calls s (snd (fu_flashrom_internal_device_prepare env s)))
   \<and> (files s (firmware_orig_path env) = None
       \<and> fst (fu_flashrom_internal_device_prepare env s) = Inr () \<longrightarrow>
        filter is_flash_access (new_calls s (snd (fu_flashrom_internal_device_prepare env s))) =
          [EvLayoutReadFromIfd, EvLayoutIncludeRegion ''bios'', EvLayoutSet (bios_layout env),
           EvImageRead (fu_flashrom_device_get_flash_size env)]
      \<and> flashctx_layout (snd (fu_flashrom_internal_device_prepare env s)) = Some (bios_layout env)
      \<and> (\<exists>e \<in> set (bios_layout env). region_name e = ''bios'' \<and> included e))"
proof (intro conjI impI)
  show "EvLayoutRelease \<notin> set (new_calls s (snd (fu_flashrom_internal_device_prepare env s)))"
    by (auto simp: fu_flashrom_internal_device_prepare_def prim_defs Let_def
        split: prod.splits option.splits bool.splits if_splits)
next
  assume a: "files s (firmware_orig_path env) = None
       \<and> fst (fu_flashrom_internal_device_prepare env s) = Inr ()"
  then have a1: "files s (firmware_orig_path env) = None"
    and a2: "fst (fu_flashrom_internal_device_prepare env s) = Inr ()" by simp_all
  note c = prepare_created(1) [OF a1 a2]
  have r: "layout_resolves env" by (rule prepare_created(3) [OF a1 a2])
  show "filter is_flash_access (new_calls s (snd (fu_flashrom_internal_device_prepare env s))) =
          [EvLayoutReadFromIfd, EvLayoutIncludeRegion ''bios'', EvLayoutSet (bios_layout env),
           EvImageRead (fu_flashrom_device_get_flash_size env)]"
    by (simp add: c new_calls_def)
  show "flashctx_layout (snd (fu_flashrom_internal_device_prepare env s)) = Some (bios_layout env)"
    by (simp add: c)
  from r have "''bios'' \<in> region_name ` set (snd (ifd_read env))"
    by (simp add: layout_resolves_def include_region_rc split: if_splits)
  then show "\<exists>e \<in> set (bios_layout env). region_name e = ''bios'' \<and> included e"
    unfolding bios_layout_def by (rule include_region_marks)
qed

subsection \<open>A descriptor without the bios region\<close>

text \<open>
  Claim C4. For every descriptor layout that is read and does not hold a region named
  \<^verbatim>\<open>bios\<close>, restricting the layout fails and the hook fails with the not-supported error
  \<^verbatim>\<open>invalid region name\<close>. In \<^verbatim>\<open>prepare\<close> (reached without a backup) the state changes by
  the four calls up to the restriction only: no layout is set, the chip is not read, no
  file is written. In \<^verbatim>\<open>write_firmware\<close> the calls are the descriptor read and the
  restriction: no layout is set and no write is attempted.
\<close>

text \<open>
  Claim C10, an instance: on the sample machine \<^verbatim>\<open>prepare\<close> creates the backup with four libflashrom calls, none of them the release.
\<close>

theorem C10_prepare_never_releases_witness:
  "files sample_state (firmware_orig_path sample_env) = None
   \<and> fst (fu_flashrom_internal_device_prepare sample_env sample_state) = Inr ()
   \<and> EvLayoutRelease \<notin> set (new_calls sample_state
        (snd (fu_flashrom_internal_device_prepare sample_env sample_state)))
   \<and> filter is_flash_access (new_calls sample_state
        (snd (fu_flashrom_internal_device_prepare sample_env sample_state))) =
        [EvLayoutReadFromIfd, EvLayoutIncludeRegion ''bios'',
         EvLayoutSet [\<lparr>region_start = 0, region_end = 0, included = False, region_name = ''me''\<rparr>,
                      \<lparr>region_start = 1, region_end = 1, included = True, region_name = ''bios''\<rparr>],
         EvImageRead 2]"
  using C10_prepare_never_releases [of sample_state sample_env]
  by (simp add: sample_prepare) (simp add: sample_defs prim_defs stage_defs)

theorem C4_missing_region:
  assumes "fst (ifd_read env) = 0"
    and "''bios'' \<notin> region_name ` set (snd (ifd_read env))"
  shows "(mkdir_parent_result env = None \<and> files s (firmware_orig_path env) = None \<longrightarrow>
           fu_flashrom_internal_device_prepare env s =
             (Inl \<lparr>code = FWUPD_ERROR_NOT_SUPPORTED, message = ''invalid region name''\<rparr>,
              s\<lparr>calls := calls s @
                   [EvMkdirParent (firmware_orig_path env), EvFileTest (firmware_orig_path env),
                    EvLayoutReadFromIfd, EvLayoutIncludeRegion ''bios'']\<rparr>))
       \<and> (fu_firmware_get_bytes env = Inr img \<longrightarrow>
           fst (fu_flashrom_internal_device_write_firmware env s) =
             Inl \<lparr>code = FWUPD_ERROR_NOT_SUPPORTED, message = ''invalid region name''\<rparr>
         \<and> new_calls s (snd (fu_flashrom_internal_device_write_firmware env s)) =
             [EvLayoutReadFromIfd, EvLayoutIncludeRegion ''bios'']
         \<and> flashctx_layout (snd (fu_flashrom_internal_device_write_firmware env s)) = flashctx_layout s
         \<and> files (snd (fu_flashrom_internal_device_write_firmware env s)) = files s)"
  using assms include_region_absent [OF assms(2)]
  by (auto simp: fu_flashrom_internal_device_prepare_def fu_flashrom_internal_device_write_firmware_def
      prim_defs Let_def split: prod.splits option.splits bool.splits)

subsection \<open>Write, then verify\<close>

text \<open>
  Claim C5. In \<^verbatim>\<open>write_firmware\<close> on a fresh ledger, the verify primitive is called only
  if the write primitive was reached and answered success. At every moment of the run
  (every prefix of the calls) a verify call is preceded by the write call, and the verify
  phase is marked complete only after the write phase is. When the write succeeds and
  the verify fails, the result is the error \<^verbatim>\<open>image verify failed\<close>, and of the two phases
  of the ledger the write phase is the only one marked complete. On every exit the
  phases marked complete are an initial part of the ledger write, verify.
\<close>

text \<open>
  Claim C4, an instance: with a descriptor that holds the region \<^verbatim>\<open>me\<close> only, both hooks fail with \<^verbatim>\<open>invalid region name\<close> and leave the flash context without a layout.
\<close>

theorem C4_missing_region_witness:
  "fst (ifd_read sample_env_no_bios) = 0
   \<and> ''bios'' \<notin> region_name ` set (snd (ifd_read sample_env_no_bios))
   \<and> mkdir_parent_result sample_env_no_bios = None
   \<and> files sample_state (firmware_orig_path sample_env_no_bios) = None
   \<and> fu_firmware_get_bytes sample_env_no_bios = Inr [1, 2]
   \<and> fst (fu_flashrom_internal_device_prepare sample_env_no_bios sample_state) =
        Inl \<lparr>code = FWUPD_ERROR_NOT_SUPPORTED, message = ''invalid region name''\<rparr>
   \<and> flashctx_layout (snd (fu_flashrom_internal_device_prepare sample_env_no_bios sample_state)) = None
   \<and> fst (fu_flashrom_internal_device_write_firmware sample_env_no_bios sample_state) =
        Inl \<lparr>code = FWUPD_ERROR_NOT_SUPPORTED, message = ''invalid region name''\<rparr>
   \<and> new_calls sample_state (snd (fu_flashrom_internal_device_write_firmware sample_env_no_bios sample_state)) =
        [EvLayoutReadFromIfd, EvLayoutIncludeRegion ''bios'']
   \<and> flashctx_layout (snd (fu_flashrom_internal_device_write_firmware sample_env_no_bios sample_state)) = None"
  using C4_missing_region [of sample_env_no_bios sample_state "[1, 2]"]
  by (simp add: sample_defs prim_defs)


text \<open>
  Claim C6. After a successful write and verify the CMOS reset is gated on the
  reset-cmos flag. Without the flag the hook returns success and the reset handler is
  not called. With the flag the handler is called once; if it succeeds the hook
  succeeds, and if it fails the hook fails with the error of the handler, its message
  prefixed by \<^verbatim>\<open>failed CMOS reset: \<close>, although the write and the verify primitive were
  each called once and succeeded.
\<close>


theorem C6_post_action_gating:
  assumes "fu_firmware_get_bytes env = Inr img" and "verify_succeeds env img"
  shows "(\<not> fu_device_has_private_flag env FU_FLASHROM_DEVICE_FLAG_RESET_CMOS \<longrightarrow>
            fst (fu_flashrom_internal_device_write_firmware env s) = Inr ()
          \<and> EvCmosReset \<notin> set (new_calls s (snd (fu_flashrom_internal_device_write_firmware env s))))
       \<and> (fu_device_has_private_flag env FU_FLASHROM_DEVICE_FLAG_RESET_CMOS \<longrightarrow>
            count_list (new_calls s (snd (fu_flashrom_internal_device_write_firmware env s))) EvCmosReset = 1
          \<and> (cmos_reset_result env = None \<longrightarrow>
               fst (fu_flashrom_internal_device_write_firmware env s) = Inr ())
          \<and> (\<forall>e. cmos_reset_result env = Some e \<longrightarrow>
               (\<exists>e'. fst (fu_flashrom_internal_device_write_firmware env s) = Inl e'
                  \<and> code e' = code e \<and> message e' = ''failed CMOS reset: '' @ message e)))
       \<and> filter is_image_write (new_calls s (snd (fu_flashrom_internal_device_write_firmware env s)))
           = [EvImageWrite img]
       \<and> filter is_image_verify (new_calls s (snd (fu_flashrom_internal_device_write_firmware env s)))
           = [EvImageVerify img]"
  by (simp add: wf_verified [OF assms] new_calls_def g_prefix_error_def)

text \<open>
  Claim C7. A verify failure is returned to the caller as the error
  \<^verbatim>\<open>image verify failed\<close>, and this error is distinct from the error of every earlier
  stage of \<^verbatim>\<open>write_firmware\<close> (descriptor read, missing region, size mismatch, write
  failure): the two results differ, and so do the two messages. In particular the
  failure of the write primitive is returned as \<^verbatim>\<open>image write failed, err=<rc>\<close>, which
  the caller tells apart from the verify failure.
\<close>

theorem C7_verify_error:
  assumes "fu_firmware_get_bytes env = Inr img" and "write_succeeds env img"
    and "image_verify env img (length img) \<noteq> 0"
    and "fu_firmware_get_bytes env' = Inr img'" and "\<not> write_succeeds env' img'"
  shows "fst (fu_flashrom_internal_device_write_firmware env s) =
           Inl \<lparr>code = FWUPD_ERROR_WRITE, message = ''image verify failed''\<rparr>
       \<and> fst (fu_flashrom_internal_device_write_firmware env' s')
           \<noteq> fst (fu_flashrom_internal_device_write_firmware env s)
       \<and> (\<exists>e'. fst (fu_flashrom_internal_device_write_firmware env' s') = Inl e'
             \<and> e' \<noteq> \<lparr>code = FWUPD_ERROR_WRITE, message = ''image verify failed''\<rparr>
             \<and> message e' \<noteq> ''image verify failed'')
       \<and> (layout_resolves env' \<and> length img' = fu_flashrom_device_get_flash_size env'
            \<and> image_write env' img' (length img') \<noteq> 0 \<longrightarrow>
           fst (fu_flashrom_internal_device_write_firmware env' s') =
             Inl \<lparr>code = FWUPD_ERROR_WRITE,
                  message = ''image write failed, err='' @ fmt_i (image_write env' img' (length img'))\<rparr>)"
proof -
  note v = wf_verify_fails [OF assms(1-3), of s]
  show ?thesis
  proof (cases rule: wf_stage_cases [where env = env' and img = img'])
    case c_ifd
    then have n: "\<not> layout_resolves env'" by (simp add: layout_resolves_def)
    show ?thesis by (simp add: v wf_ifd_fails [OF assms(4) c_ifd] n)
  next
    case c_region
    then have n: "\<not> layout_resolves env'" by (simp add: layout_resolves_def)
    show ?thesis by (simp add: v wf_region_fails [OF assms(4) c_region] n)
  next
    case c_size
    show ?thesis by (simp add: v wf_size_fails [OF assms(4) c_size] c_size)
  next
    case c_write
    show ?thesis by (simp add: v wf_write_fails [OF assms(4) c_write])
  next
    case c_verify
    with assms(5) show ?thesis by simp
  next
    case c_verified
    with assms(5) show ?thesis by (simp add: verify_succeeds_def)
  qed
qed

text \<open>
  Claim C7, an instance: on the sample machine the failure of the verify primitive is
  returned as \<^verbatim>\<open>image verify failed\<close> and the failure of the write primitive as
  \<^verbatim>\<open>image write failed, err=1\<close>, two different results.
\<close>

theorem C7_verify_error_witness:
  "fu_firmware_get_bytes sample_env_verify_fails = Inr [1, 2]
   \<and> write_succeeds sample_env_verify_fails [1, 2]
   \<and> image_verify sample_env_verify_fails [1, 2] (length [1 :: byte, 2]) \<noteq> 0
   \<and> fu_firmware_get_bytes sample_env_write_fails = Inr [1, 2]
   \<and> \<not> write_succeeds sample_env_write_fails [1, 2]
   \<and> layout_resolves sample_env_write_fails
   \<and> length [1 :: byte, 2] = fu_flashrom_device_get_flash_size sample_env_write_fails
   \<and> image_write sample_env_write_fails [1, 2] (length [1 :: byte, 2]) = 1
   \<and> fst (fu_flashrom_internal_device_write_firmware sample_env_verify_fails sample_state) =
        Inl \<lparr>code = FWUPD_ERROR_WRITE, message = ''image verify failed''\<rparr>
   \<and> fst (fu_flashrom_internal_device_write_firmware sample_env_write_fails sample_state) =
        Inl \<lparr>code = FWUPD_ERROR_WRITE, message = ''image write failed, err=1''\<rparr>
   \<and> fst (fu_flashrom_internal_device_write_firmware sample_env_write_fails sample_state)
        \<noteq> fst (fu_flashrom_internal_device_write_firmware sample_env_verify_fails sample_state)"
proof -
  have h: "fu_firmware_get_bytes sample_env_verify_fails = Inr [1, 2]"
    "write_succeeds sample_env_verify_fails [1, 2]"
    "image_verify sample_env_verify_fails [1, 2] (length [1 :: byte, 2]) \<noteq> 0"
    "fu_firmware_get_bytes sample_env_write_fails = Inr [1, 2]"
    "\<not> write_succeeds sample_env_write_fails [1, 2]"
    by (simp_all add: sample_defs prim_defs stage_defs)
  have g: "layout_resolves sample_env_write_fails"
    "length [1 :: byte, 2] = fu_flashrom_device_get_flash_size sample_env_write_fails"
    "image_write sample_env_write_fails [1, 2] (length [1 :: byte, 2]) = 1"
    by (simp_all add: sample_defs prim_defs stage_defs)
  from C7_verify_error [OF h, of sample_state sample_state] h g show ?thesis
    by (simp add: fmt_i_small)
qed

text \<open>
  Claim C8. On a fresh ledger \<^verbatim>\<open>write_firmware\<close> registers exactly two phases, write
  with weight 90 and then verify with weight 10, whatever the outcome. On the success
  path the write call, the completion of the write phase, the verify call and the
  completion of the verify phase happen once each in this order, and both phases are
  marked complete at the end.
\<close>

text \<open>
  Claim C6, an instance: the sample device without the flag succeeds without a reset call; the same device with the flag and a failing handler fails with the prefixed error.
\<close>

theorem C6_post_action_gating_witness:
  "fu_firmware_get_bytes sample_env = Inr [1, 2]
   \<and> verify_succeeds sample_env [1, 2]
   \<and> \<not> fu_device_has_private_flag sample_env FU_FLASHROM_DEVICE_FLAG_RESET_CMOS
   \<and> fst (fu_flashrom_internal_device_write_firmware sample_env sample_state) = Inr ()
   \<and> EvCmosReset \<notin> set (new_calls sample_state (snd (fu_flashrom_internal_device_write_firmware sample_env sample_state)))
   \<and> fu_firmware_get_bytes sample_env_reset_fails = Inr [1, 2]
   \<and> verify_succeeds sample_env_reset_fails [1, 2]
   \<and> fu_device_has_private_flag sample_env_reset_fails FU_FLASHROM_DEVICE_FLAG_RESET_CMOS
   \<and> cmos_reset_result sample_env_reset_fails =
        Some \<lparr>code = FWUPD_ERROR_OTHER ''internal'', message = ''no port access''\<rparr>
   \<and> fst (fu_flashrom_internal_device_write_firmware sample_env_reset_fails sample_state) =
        Inl \<lparr>code = FWUPD_ERROR_OTHER ''internal'', message = ''failed CMOS reset: no port access''\<rparr>"
proof -
  have h: "fu_firmware_get_bytes sample_env = Inr [1, 2]" "verify_succeeds sample_env [1, 2]"
    "\<not> fu_device_has_private_flag sample_env FU_FLASHROM_DEVICE_FLAG_RESET_CMOS"
    by (simp_all add: sample_defs prim_defs stage_defs fu_device_has_private_flag_def)
  have g: "fu_firmware_get_bytes sample_env_reset_fails = Inr [1, 2]"
    "verify_succeeds sample_env_reset_fails [1, 2]"
    "fu_device_has_private_flag sample_env_reset_fails FU_FLASHROM_DEVICE_FLAG_RESET_CMOS"
    "cmos_reset_result sample_env_reset_fails =
        Some \<lparr>code = FWUPD_ERROR_OTHER ''internal'', message = ''no port access''\<rparr>"
    by (simp_all add: sample_defs prim_defs stage_defs fu_device_has_private_flag_def
        FU_FLASHROM_DEVICE_FLAG_RESET_CMOS_def)
  from C6_post_action_gating [OF h(1) h(2), of sample_state]
    C6_post_action_gating [OF g(1) g(2), of sample_state] h g
  show ?thesis
    by auto
qed

theorem C8_progress_ledger:
  assumes "fu_firmware_get_bytes env = Inr img" and "fresh_ledger (progress s)"
  shows "steps (progress (snd (fu_flashrom_internal_device_write_firmware env s))) =
           [(FWUPD_STATUS_DEVICE_WRITE, 90), (FWUPD_STATUS_DEVICE_VERIFY, 10)]
       \<and> (fst (fu_flashrom_internal_device_write_firmware env s) = Inr () \<longrightarrow>
            filter (\<lambda>e. is_image_write e \<or> is_image_verify e \<or> is_step_done e)
              (new_calls s (snd (fu_flashrom_internal_device_write_firmware env s))) =
              [EvImageWrite img, EvStepDone FWUPD_STATUS_DEVICE_WRITE,
               EvImageVerify img, EvStepDone FWUPD_STATUS_DEVICE_VERIFY]
          \<and> steps_done (progress (snd (fu_flashrom_internal_device_write_firmware env s))) =
              [(FWUPD_STATUS_DEVICE_WRITE, 90), (FWUPD_STATUS_DEVICE_VERIFY, 10)])"
proof (cases rule: wf_stage_cases [where env = env and img = img])
  case c_ifd
  show ?thesis
    by (simp add: wf_ifd_fails [OF assms(1) c_ifd] fresh_registered [OF assms(2)])
next
  case c_region
  show ?thesis
    by (simp add: wf_region_fails [OF assms(1) c_region] fresh_registered [OF assms(2)])
next
  case c_size
  show ?thesis
    by (simp add: wf_size_fails [OF assms(1) c_size] fresh_registered [OF assms(2)])
next
  case c_write
  show ?thesis
    by (simp add: wf_write_fails [OF assms(1) c_write] fresh_registered [OF assms(2)])
next
  case c_verify
  show ?thesis
    by (simp add: wf_verify_fails [OF assms(1) c_verify] fresh_registered [OF assms(2)])
next
  case c_verified
  show ?thesis
    by (simp add: wf_verified [OF assms(1) c_verified] fresh_registered [OF assms(2)]
        new_calls_def steps_done_def)
qed

text \<open>
  Claim C9. Once the layout is read from the descriptor, \<^verbatim>\<open>write_firmware\<close> calls the
  release of the layout exactly when write and verify both succeed, and at most once.
  Every other exit (missing region, size mismatch, write failure, verify failure) is an
  error return without the release.
\<close>

text \<open>
  Claim C8, an instance: the successful run on the sample machine registers the two phases and marks them complete in order, each after its primitive.
\<close>

theorem C8_progress_ledger_witness:
  "fu_firmware_get_bytes sample_env = Inr [1, 2]
   \<and> fresh_ledger (progress sample_state)
   \<and> fst (fu_flashrom_internal_device_write_firmware sample_env sample_state) = Inr ()
   \<and> steps (progress (snd (fu_flashrom_internal_device_write_firmware sample_env sample_state))) =
        [(FWUPD_STATUS_DEVICE_WRITE, 90), (FWUPD_STATUS_DEVICE_VERIFY, 10)]
   \<and> filter (\<lambda>e. is_image_write e \<or> is_image_verify e \<or> is_step_done e)
        (new_calls sample_state (snd (fu_flashrom_internal_device_write_firmware sample_env sample_state))) =
        [EvImageWrite [1, 2], EvStepDone FWUPD_STATUS_DEVICE_WRITE,
         EvImageVerify [1, 2], EvStepDone FWUPD_STATUS_DEVICE_VERIFY]"
proof -
  have h: "fu_firmware_get_bytes sample_env = Inr [1, 2]" "fresh_ledger (progress sample_state)"
    by (simp_all add: sample_defs prim_defs stage_defs)
  have r: "fst (fu_flashrom_internal_device_write_firmware sample_env sample_state) = Inr ()"
    by (simp add: eval_defs)
  from C8_progress_ledger [OF h] h r show ?thesis
    by simp
qed

theorem C9_layout_release:
  assumes "fu_firmware_get_bytes env = Inr img" and "fst (ifd_read env) = 0"
  shows "(EvLayoutRelease \<in> set (new_calls s (snd (fu_flashrom_internal_device_write_firmware env s))))
           = verify_succeeds env img
       \<and> count_list (new_calls s (snd (fu_flashrom_internal_device_write_firmware env s))) EvLayoutRelease \<le> 1
       \<and> (\<not> verify_succeeds env img \<longrightarrow>
            (\<exists>e. fst (fu_flashrom_internal_device_write_firmware env s) = Inl e)
          \<and> EvLayoutRelease \<notin> set (new_calls s (snd (fu_flashrom_internal_device_write_firmware env s))))"
proof (cases rule: wf_stage_cases [where env = env and img = img])
  case c_ifd
  with assms(2) show ?thesis by simp
next
  case c_region
  then have n: "\<not> verify_succeeds env img" by (simp add: stage_defs)
  show ?thesis
    by (simp add: wf_region_fails [OF assms(1) c_region] n new_calls_def)
next
  case c_size
  then have n: "\<not> verify_succeeds env img" by (simp add: stage_defs)
  show ?thesis
    by (simp add: wf_size_fails [OF assms(1) c_size] n new_calls_def)
next
  case c_write
  then have n: "\<not> verify_succeeds env img" by (simp add: stage_defs)
  show ?thesis
    by (simp add: wf_write_fails [OF assms(1) c_write] n new_calls_def)
next
  case c_verify
  then have n: "\<not> verify_succeeds env img" by (simp add: stage_defs)
  show ?thesis
    by (simp add: wf_verify_fails [OF assms(1) c_verify] n new_calls_def)
next
  case c_verified
  show ?thesis
    by (simp add: wf_verified [OF assms(1) c_verified] c_verified new_calls_def)
qed

text \<open>
  Claim C9, an instance: the successful run on the sample machine releases the layout; the run whose write primitive answers 1 fails without releasing it.
\<close>

theorem C9_layout_release_witness:
  "fu_firmware_get_bytes sample_env = Inr [1, 2] \<and> fst (ifd_read sample_env) = 0
   \<and> verify_succeeds sample_env [1, 2]
   \<and> EvLayoutRelease \<in> set (new_calls sample_state
        (snd (fu_flashrom_internal_device_write_firmware sample_env sample_state)))
   \<and> fu_firmware_get_bytes sample_env_write_fails = Inr [1, 2] \<and> fst (ifd_read sample_env_write_fails) = 0
   \<and> \<not> verify_succeeds sample_env_write_fails [1, 2]
   \<and> fst (fu_flashrom_internal_device_write_firmware sample_env_write_fails sample_state) =
        Inl \<lparr>code = FWUPD_ERROR_WRITE, message = ''image write failed, err=1''\<rparr>
   \<and> EvLayoutRelease \<notin> set (new_calls sample_state
        (snd (fu_flashrom_internal_device_write_firmware sample_env_write_fails sample_state)))"
proof -
  have h: "fu_firmware_get_bytes sample_env = Inr [1, 2]" "fst (ifd_read sample_env) = 0"
    "verify_succeeds sample_env [1, 2]"
    by (simp_all add: sample_defs prim_defs stage_defs)
  have g: "fu_firmware_get_bytes sample_env_write_fails = Inr [1, 2]"
    "fst (ifd_read sample_env_write_fails) = 0"
    "\<not> verify_succeeds sample_env_write_fails [1, 2]"
    by (simp_all add: sample_defs prim_defs stage_defs)
  have r: "fst (fu_flashrom_internal_device_write_firmware sample_env_write_fails sample_state) =
        Inl \<lparr>code = FWUPD_ERROR_WRITE, message = ''image write failed, err=1''\<rparr>"
    by (simp add: eval_defs fmt_i_small)
  from C9_layout_release [OF h(1) h(2), of sample_state]
    C9_layout_release [OF g(1) g(2), of sample_state] h g r
  show ?thesis
    by simp
qed

end
